theory Spec2Isabelle
  imports Complex_Main "HOL-Library.AList"
begin

section \<open>Errors\<close>

text \<open>
  A JavaScript exception is a value: \<open>Error msg\<close> is \<^verbatim>\<open>throw new Error(msg)\<close>,
  \<open>TypeError\<close> is what the runtime raises when a property of \<^verbatim>\<open>null\<close> or
  \<^verbatim>\<open>undefined\<close> is read or written.
\<close>

datatype error = Error string | TypeError

section \<open>RMXBoneMatrixTexture: capacity and optimalSize\<close>

text \<open>
  \<^verbatim>\<open>capacity(size)\<close> is \<^verbatim>\<open>size * size / 4\<close> on JavaScript numbers; the numbers
  are modelled as reals (the values that occur, powers of two up to \<open>2048\<close> and their
  squares, are exact in a double).
\<close>

definition capacity :: "real \<Rightarrow> real" where
  "capacity sz =
     (let texels = sz * sz;
          texels_per_matrix = 4
      in texels / texels_per_matrix)"

text \<open>
  The \<^verbatim>\<open>while\<close> loop of \<^verbatim>\<open>optimalSize\<close>. From an arbitrary start (\<open>0\<close>, say) the
  loop need not end, so not returning is the value \<open>None\<close>; that it does return from
  the start value \<open>2\<close> is part of what is proved below.
\<close>

partial_function (option) optimalSize_loop :: "real \<Rightarrow> real \<Rightarrow> (error + real) option" where
  "optimalSize_loop bones result =
     (if capacity result < bones then
        (let result' = result * 2
         in if result' > 2048 then Some (Inl (Error ''Too many bones''))
            else optimalSize_loop bones result')
      else Some (Inr result))"

declare optimalSize_loop.simps [code]

definition optimalSize :: "real \<Rightarrow> (error + real) option" where
  "optimalSize bones = optimalSize_loop bones 2"

section \<open>RMXMaterial\<close>

text \<open>The three fields are strings or \<^verbatim>\<open>null\<close> (the constructor's value).\<close>

record RMXMaterial =
  diffuse :: "string option"
  specular :: "string option"
  normal :: "string option"

text \<open>\<^verbatim>\<open>(s || "")\<close>: \<^verbatim>\<open>null\<close> and the empty string are falsy and give \<^verbatim>\<open>""\<close>.\<close>

definition or_empty :: "string option \<Rightarrow> string" where
  "or_empty s = (case s of None \<Rightarrow> '''' | Some x \<Rightarrow> (if x = '''' then '''' else x))"

definition hash :: "RMXMaterial \<Rightarrow> string" where
  "hash m = ''material|'' @ or_empty (diffuse m) @ ''|'' @ or_empty (specular m)
              @ ''|'' @ or_empty (normal m)"


section \<open>JavaScript numbers and typed arrays\<close>

text \<open>
  A JavaScript \<^verbatim>\<open>number\<close> is modelled as a real or \<open>NaN\<close>: finite values are
  taken without rounding, infinities are left out. \<open>NaN\<close> is kept because the sampler
  produces it (a remainder by zero, a read outside an array).
\<close>

datatype number = Num real | NaN

fun num_add :: "number \<Rightarrow> number \<Rightarrow> number" where
  "num_add (Num a) (Num b) = Num (a + b)"
| "num_add _ _ = NaN"

fun num_sub :: "number \<Rightarrow> number \<Rightarrow> number" where
  "num_sub (Num a) (Num b) = Num (a - b)"
| "num_sub _ _ = NaN"

fun num_mul :: "number \<Rightarrow> number \<Rightarrow> number" where
  "num_mul (Num a) (Num b) = Num (a * b)"
| "num_mul _ _ = NaN"

text \<open>\<^verbatim>\<open>a % b\<close>: the remainder of the truncated division, \<open>NaN\<close> for a zero divisor.\<close>

definition trunc :: "real \<Rightarrow> int" where
  "trunc x = (if 0 \<le> x then \<lfloor>x\<rfloor> else \<lceil>x\<rceil>)"

fun num_mod :: "number \<Rightarrow> number \<Rightarrow> number" where
  "num_mod (Num a) (Num b) = (if b = 0 then NaN else Num (a - b * of_int (trunc (a / b))))"
| "num_mod _ _ = NaN"

fun num_floor :: "number \<Rightarrow> number" where
  "num_floor (Num a) = Num (of_int \<lfloor>a\<rfloor>)"
| "num_floor NaN = NaN"

fun num_ceil :: "number \<Rightarrow> number" where
  "num_ceil (Num a) = Num (of_int \<lceil>a\<rceil>)"
| "num_ceil NaN = NaN"

fun num_max :: "number \<Rightarrow> number \<Rightarrow> number" where
  "num_max (Num a) (Num b) = Num (max a b)"
| "num_max _ _ = NaN"

fun num_min :: "number \<Rightarrow> number \<Rightarrow> number" where
  "num_min (Num a) (Num b) = Num (min a b)"
| "num_min _ _ = NaN"

text \<open>
  Reading a \<^verbatim>\<open>Float32Array\<close>: an index that is not an integer inside the array gives
  \<^verbatim>\<open>undefined\<close>, which every use in this program turns into \<open>NaN\<close> (arithmetic, or a
  store into another \<^verbatim>\<open>Float32Array\<close>). Writing outside the array is ignored, which
  is what \<open>xs[i := v]\<close> does.
\<close>

definition elem :: "number list \<Rightarrow> nat \<Rightarrow> number" where
  "elem arr i = (if i < length arr then arr ! i else NaN)"

definition index_of :: "number \<Rightarrow> nat option" where
  "index_of i = (case i of NaN \<Rightarrow> None
                 | Num r \<Rightarrow> if 0 \<le> r \<and> r = of_int \<lfloor>r\<rfloor> then Some (nat \<lfloor>r\<rfloor>) else None)"

definition elem_num :: "number list \<Rightarrow> number \<Rightarrow> number" where
  "elem_num arr i = (case index_of i of None \<Rightarrow> NaN | Some k \<Rightarrow> elem arr k)"

text \<open>\<^verbatim>\<open>xs[i]\<close> on an ordinary array: \<open>None\<close> is \<^verbatim>\<open>undefined\<close>.\<close>

definition lookup :: "'a list \<Rightarrow> nat \<Rightarrow> 'a option" where
  "lookup xs i = (if i < length xs then Some (xs ! i) else None)"

section \<open>The gl-matrix operations\<close>

text \<open>
  The library gl-matrix is not part of the repository (only its declaration file is
  referenced), so the four operations that compute are parameters of the model. Each
  takes the values of its input arguments and returns the value written to \<^verbatim>\<open>out\<close>.
  \<^verbatim>\<open>vec3.set\<close>, \<^verbatim>\<open>quat.set\<close> and \<^verbatim>\<open>mat4.copy\<close> only move values and are written out.
\<close>

record glmatrix =
  mat4_fromRotationTranslation :: "number list \<Rightarrow> number list \<Rightarrow> number list"
  mat4_scale :: "number list \<Rightarrow> number list \<Rightarrow> number list"
  mat4_multiply :: "number list \<Rightarrow> number list \<Rightarrow> number list"
  quat_slerp :: "number list \<Rightarrow> number list \<Rightarrow> number \<Rightarrow> number list"

section \<open>The runtime model: bones, poses, tracks, animations\<close>

text \<open>
  Indices (\<open>parent\<close>, \<open>bone\<close>) are integers. An entry of \<open>tracks\<close> may be \<^verbatim>\<open>null\<close>
  (\<^verbatim>\<open>loadAnimationTrack\<close> returns \<^verbatim>\<open>null\<close> for a \<^verbatim>\<open>null\<close> JSON track), and so may each of
  the three arrays of a track (\<^verbatim>\<open>loadFloatData\<close>). The three arrays of a pose and
  its world matrices are separate objects, as the constructor of \<^verbatim>\<open>RMXPose\<close> makes
  them.
\<close>

record RMXBone =
  name :: string
  parent :: int
  skinned :: bool
  inv_bind_mat :: "number list"
  pos :: "number list"
  rot :: "number list"
  scl :: "number list"

record RMXSkeleton =
  bones :: "RMXBone list"

record RMXAnimationTrack =
  bone :: int
  pos :: "number list option"
  rot :: "number list option"
  scl :: "number list option"

record RMXAnimation =
  name :: string
  frames :: number
  fps :: number
  tracks :: "RMXAnimationTrack option list"

record RMXPose =
  pos :: "number list"
  rot :: "number list"
  scl :: "number list"
  world_matrices :: "number list list"

subsection \<open>exportPose\<close>







subsection \<open>sampleAnimation\<close>

text \<open>\<^verbatim>\<open>var looped = true;\<close>\<close>

definition looped :: bool where
  "looped = True"

text \<open>
  The values computed before the loop from \<^verbatim>\<open>frame\<close> and \<^verbatim>\<open>animation.frames\<close>.
\<close>

record frame_vars =
  f13 :: number
  f14 :: number
  f23 :: number
  f24 :: number
  s1 :: number
  s2 :: number

definition sampleAnimation_frame :: "RMXAnimation \<Rightarrow> number \<Rightarrow> frame_vars" where
  "sampleAnimation_frame animation frame0 =
     (let frame = (if looped then num_mod frame0 (frames animation)
                   else num_max (num_min frame0 (num_sub (frames animation) (Num 1))) (Num 0));
          f1 = num_floor frame;
          f1 = num_mod f1 (frames animation);
          f2 = num_ceil frame;
          f2 = num_mod f2 (frames animation)
      in \<lparr> f13 = num_mul f1 (Num 3), f14 = num_mul f1 (Num 4),
           f23 = num_mul f2 (Num 3), f24 = num_mul f2 (Num 4),
           s1 = num_sub (Num 1) (num_sub frame (num_floor frame)),
           s2 = num_sub frame (num_floor frame) \<rparr>)"

text \<open>\<^verbatim>\<open>s1 * track[f1k + i] + s2 * track[f2k + i]\<close>\<close>

definition lerp_at :: "frame_vars \<Rightarrow> number list \<Rightarrow> number \<Rightarrow> number \<Rightarrow> nat \<Rightarrow> number" where
  "lerp_at fv track fa fb i =
     num_add (num_mul (s1 fv) (elem_num track (num_add fa (Num (of_nat i)))))
             (num_mul (s2 fv) (elem_num track (num_add fb (Num (of_nat i)))))"

text \<open>
  One pass of the loop. \<^verbatim>\<open>track.pos\<close> is read first: a track that is \<^verbatim>\<open>null\<close> or
  \<^verbatim>\<open>undefined\<close> (a track list shorter than the bone list) is a \<open>TypeError\<close> before
  anything is written for this bone.
\<close>

definition sampleAnimation_body ::
  "glmatrix \<Rightarrow> RMXAnimation \<Rightarrow> RMXSkeleton \<Rightarrow> frame_vars \<Rightarrow> RMXPose \<Rightarrow> nat \<Rightarrow> error + RMXPose" where
  "sampleAnimation_body gl animation skeleton fv pose b =
     (let b3 = b * 3; b4 = b * 4;
          dest_pos = RMXPose.pos pose; dest_rot = RMXPose.rot pose; dest_scl = RMXPose.scl pose
      in case lookup (tracks animation) b of
           None \<Rightarrow> Inl TypeError
         | Some None \<Rightarrow> Inl TypeError
         | Some (Some track) \<Rightarrow>
             (let track_pos = RMXAnimationTrack.pos track;
                  track_rot = RMXAnimationTrack.rot track;
                  track_scl = RMXAnimationTrack.scl track;
                  bone = bones skeleton ! b;
                  bone_pos = RMXBone.pos bone;
                  bone_rot = RMXBone.rot bone;
                  bone_scl = RMXBone.scl bone;
                  dest_pos =
                    (case track_pos of
                       Some track_pos \<Rightarrow>
                         dest_pos[b3 + 0 := lerp_at fv track_pos (f13 fv) (f23 fv) 0,
                                  b3 + 1 := lerp_at fv track_pos (f13 fv) (f23 fv) 1,
                                  b3 + 2 := lerp_at fv track_pos (f13 fv) (f23 fv) 2]
                     | None \<Rightarrow>
                         dest_pos[b3 + 0 := elem bone_pos 0,
                                  b3 + 1 := elem bone_pos 1,
                                  b3 + 2 := elem bone_pos 2]);
                  dest_rot =
                    (case track_rot of
                       Some track_rot \<Rightarrow>
                         (let quat1 = [elem_num track_rot (num_add (f14 fv) (Num 0)),
                                       elem_num track_rot (num_add (f14 fv) (Num 1)),
                                       elem_num track_rot (num_add (f14 fv) (Num 2)),
                                       elem_num track_rot (num_add (f14 fv) (Num 3))];
                              quat2 = [elem_num track_rot (num_add (f24 fv) (Num 0)),
                                       elem_num track_rot (num_add (f24 fv) (Num 1)),
                                       elem_num track_rot (num_add (f24 fv) (Num 2)),
                                       elem_num track_rot (num_add (f24 fv) (Num 3))];
                              quat1 = quat_slerp gl quat1 quat2 (s2 fv)
                          in dest_rot[b4 + 0 := elem quat1 0,
                                      b4 + 1 := elem quat1 1,
                                      b4 + 2 := elem quat1 2,
                                      b4 + 3 := elem quat1 3])
                     | None \<Rightarrow>
                         dest_rot[b4 + 0 := elem bone_rot 0,
                                  b4 + 1 := elem bone_rot 1,
                                  b4 + 2 := elem bone_rot 2,
                                  b4 + 3 := elem bone_rot 3]);
                  dest_scl =
                    (case track_scl of
                       Some track_scl \<Rightarrow>
                         dest_scl[b3 + 0 := lerp_at fv track_scl (f13 fv) (f23 fv) 0,
                                  b3 + 1 := lerp_at fv track_scl (f13 fv) (f23 fv) 1,
                                  b3 + 2 := lerp_at fv track_scl (f13 fv) (f23 fv) 2]
                     | None \<Rightarrow>
                         dest_scl[b3 + 0 := elem bone_scl 0,
                                  b3 + 1 := elem bone_scl 1,
                                  b3 + 2 := elem bone_scl 2])
              in Inr (pose\<lparr>RMXPose.pos := dest_pos, RMXPose.rot := dest_rot,
                           RMXPose.scl := dest_scl\<rparr>)))"

text \<open>
  The loop over the bones. An exception leaves the pose as the earlier passes wrote it;
  that pose is returned with the error.
\<close>

function sampleAnimation_loop ::
  "glmatrix \<Rightarrow> RMXAnimation \<Rightarrow> RMXSkeleton \<Rightarrow> frame_vars \<Rightarrow> RMXPose \<Rightarrow> nat
   \<Rightarrow> error \<times> RMXPose + RMXPose" where
  "sampleAnimation_loop gl animation skeleton fv pose b =
     (if b < length (bones skeleton) then
        (case sampleAnimation_body gl animation skeleton fv pose b of
           Inl e \<Rightarrow> Inl (e, pose)
         | Inr pose' \<Rightarrow> sampleAnimation_loop gl animation skeleton fv pose' (b + 1))
      else Inr pose)"
  by pat_completeness auto
termination
  by (relation "measure (\<lambda>(gl, animation, skeleton, fv, pose, b). length (bones skeleton) - b)")
     auto

definition sampleAnimation ::
  "glmatrix \<Rightarrow> RMXAnimation \<Rightarrow> RMXSkeleton \<Rightarrow> RMXPose \<Rightarrow> number \<Rightarrow> error \<times> RMXPose + RMXPose" where
  "sampleAnimation gl animation skeleton pose frame =
     sampleAnimation_loop gl animation skeleton (sampleAnimation_frame animation frame) pose 0"

text \<open>
  What one pass of the loop stores for bone \<open>b\<close>: component \<open>i\<close> of the position, of the
  rotation and of the scale, read off the three \<^verbatim>\<open>if\<close> statements of the body.
\<close>

definition pos_value :: "frame_vars \<Rightarrow> RMXAnimationTrack \<Rightarrow> RMXBone \<Rightarrow> nat \<Rightarrow> number" where
  "pos_value fv track rest_bone i =
     (case RMXAnimationTrack.pos track of
        Some track_pos \<Rightarrow> lerp_at fv track_pos (f13 fv) (f23 fv) i
      | None \<Rightarrow> elem (RMXBone.pos rest_bone) i)"

definition quat_at :: "number list \<Rightarrow> number \<Rightarrow> number list" where
  "quat_at track_rot f = [elem_num track_rot (num_add f (Num 0)),
                          elem_num track_rot (num_add f (Num 1)),
                          elem_num track_rot (num_add f (Num 2)),
                          elem_num track_rot (num_add f (Num 3))]"

definition rot_value ::
  "glmatrix \<Rightarrow> frame_vars \<Rightarrow> RMXAnimationTrack \<Rightarrow> RMXBone \<Rightarrow> nat \<Rightarrow> number" where
  "rot_value gl fv track rest_bone i =
     (case RMXAnimationTrack.rot track of
        Some track_rot \<Rightarrow>
          elem (quat_slerp gl (quat_at track_rot (f14 fv)) (quat_at track_rot (f24 fv)) (s2 fv)) i
      | None \<Rightarrow> elem (RMXBone.rot rest_bone) i)"

definition scl_value :: "frame_vars \<Rightarrow> RMXAnimationTrack \<Rightarrow> RMXBone \<Rightarrow> nat \<Rightarrow> number" where
  "scl_value fv track rest_bone i =
     (case RMXAnimationTrack.scl track of
        Some track_scl \<Rightarrow> lerp_at fv track_scl (f13 fv) (f23 fv) i
      | None \<Rightarrow> elem (RMXBone.scl rest_bone) i)"

text \<open>Every bone of the skeleton has a track that is not \<^verbatim>\<open>null\<close>.\<close>

definition tracks_present :: "RMXAnimation \<Rightarrow> RMXSkeleton \<Rightarrow> bool" where
  "tracks_present animation skeleton \<longleftrightarrow>
     (\<forall>b < length (bones skeleton). \<exists>t. lookup (tracks animation) b = Some (Some t))"

text \<open>A pose allocated for the skeleton, as \<^verbatim>\<open>new RMXPose(bones.length)\<close> makes it.\<close>

definition pose_for :: "RMXSkeleton \<Rightarrow> RMXPose \<Rightarrow> bool" where
  "pose_for skeleton pose \<longleftrightarrow>
     length (RMXPose.pos pose) = length (bones skeleton) * 3
   \<and> length (RMXPose.rot pose) = length (bones skeleton) * 4
   \<and> length (RMXPose.scl pose) = length (bones skeleton) * 3
   \<and> length (world_matrices pose) = length (bones skeleton)"

text \<open>Two tracks (or \<^verbatim>\<open>null\<close> entries) that agree in everything but the \<open>bone\<close> field.\<close>

definition same_but_bone :: "RMXAnimationTrack option \<Rightarrow> RMXAnimationTrack option \<Rightarrow> bool" where
  "same_but_bone t1 t2 =
     (case (t1, t2) of
        (None, None) \<Rightarrow> True
      | (Some x, Some y) \<Rightarrow>
          RMXAnimationTrack.pos x = RMXAnimationTrack.pos y
        \<and> RMXAnimationTrack.rot x = RMXAnimationTrack.rot y
        \<and> RMXAnimationTrack.scl x = RMXAnimationTrack.scl y
      | _ \<Rightarrow> False)"

subsection \<open>An instance of the gl-matrix operations\<close>

text \<open>
  For evaluating the model at concrete inputs: the matrix operations follow the
  formulas of gl-matrix (arrays of 16 numbers, \<open>out[c * 4 + r]\<close>), and the interpolation
  of quaternions is the plain linear one. The theorems below hold for any operations.
\<close>

definition example_multiply :: "number list \<Rightarrow> number list \<Rightarrow> number list" where
  "example_multiply a b =
     concat (map (\<lambda>c. map (\<lambda>r.
        fold (\<lambda>k acc. num_add acc (num_mul (elem a (k * 4 + r)) (elem b (c * 4 + k))))
             [0..<4] (Num 0)) [0..<4]) [0..<4])"

definition example_fromRotationTranslation :: "number list \<Rightarrow> number list \<Rightarrow> number list" where
  "example_fromRotationTranslation q v =
     (let x = elem q 0; y = elem q 1; z = elem q 2; w = elem q 3;
          x2 = num_add x x; y2 = num_add y y; z2 = num_add z z;
          xx = num_mul x x2; xy = num_mul x y2; xz = num_mul x z2;
          yy = num_mul y y2; yz = num_mul y z2; zz = num_mul z z2;
          wx = num_mul w x2; wy = num_mul w y2; wz = num_mul w z2
      in [num_sub (Num 1) (num_add yy zz), num_add xy wz, num_sub xz wy, Num 0,
          num_sub xy wz, num_sub (Num 1) (num_add xx zz), num_add yz wx, Num 0,
          num_add xz wy, num_sub yz wx, num_sub (Num 1) (num_add xx yy), Num 0,
          elem v 0, elem v 1, elem v 2, Num 1])"

definition example_scale :: "number list \<Rightarrow> number list \<Rightarrow> number list" where
  "example_scale a v =
     map (\<lambda>i. if i < 12 then num_mul (elem a i) (elem v (i div 4)) else elem a i) [0..<16]"

definition example_slerp :: "number list \<Rightarrow> number list \<Rightarrow> number \<Rightarrow> number list" where
  "example_slerp a b t =
     map (\<lambda>(x, y). num_add (num_mul (num_sub (Num 1) t) x) (num_mul t y)) (zip a b)"

definition example_gl :: glmatrix where
  "example_gl = \<lparr> mat4_fromRotationTranslation = example_fromRotationTranslation,
                  mat4_scale = example_scale,
                  mat4_multiply = example_multiply,
                  quat_slerp = example_slerp \<rparr>"

subsection \<open>Auxiliary definitions for the loops\<close>

text \<open>
  \<open>write_block w v j\<close> stores \<open>v j i\<close> at index \<open>j * w + i\<close> for \<open>i < w\<close>: what one pass of a
  loop over the bones does to one array. \<open>sampled_pos\<close>, \<open>sampled_rot\<close> and \<open>sampled_scl\<close> are
  the values \<^verbatim>\<open>sampleAnimation\<close> stores for bone \<open>j\<close>.
\<close>

definition write_block :: "nat \<Rightarrow> (nat \<Rightarrow> nat \<Rightarrow> number) \<Rightarrow> nat \<Rightarrow> number list \<Rightarrow> number list" where
  "write_block w v j xs = fold (\<lambda>i xs. xs[j * w + i := v j i]) [0..<w] xs"

definition sampled_pos :: "frame_vars \<Rightarrow> RMXAnimation \<Rightarrow> RMXSkeleton \<Rightarrow> nat \<Rightarrow> nat \<Rightarrow> number" where
  "sampled_pos fv animation skeleton j i =
     (case lookup (tracks animation) j of
        Some (Some t) \<Rightarrow> pos_value fv t (bones skeleton ! j) i
      | _ \<Rightarrow> NaN)"

definition sampled_rot ::
  "glmatrix \<Rightarrow> frame_vars \<Rightarrow> RMXAnimation \<Rightarrow> RMXSkeleton \<Rightarrow> nat \<Rightarrow> nat \<Rightarrow> number" where
  "sampled_rot gl fv animation skeleton j i =
     (case lookup (tracks animation) j of
        Some (Some t) \<Rightarrow> rot_value gl fv t (bones skeleton ! j) i
      | _ \<Rightarrow> NaN)"

definition sampled_scl :: "frame_vars \<Rightarrow> RMXAnimation \<Rightarrow> RMXSkeleton \<Rightarrow> nat \<Rightarrow> nat \<Rightarrow> number" where
  "sampled_scl fv animation skeleton j i =
     (case lookup (tracks animation) j of
        Some (Some t) \<Rightarrow> scl_value fv t (bones skeleton ! j) i
      | _ \<Rightarrow> NaN)"

declare sampleAnimation_loop.simps [simp del]



subsection \<open>Example data\<close>

text \<open>
  A chain of two bones, a two-frame animation that moves the root from \<open>(0, 0, 0)\<close> to
  \<open>(2, 0, 0)\<close> and leaves the child to its rest values, and a pose for two bones.
\<close>

definition example_root :: RMXBone where
  "example_root = \<lparr> RMXBone.name = ''root'', parent = -1, skinned = True,
     inv_bind_mat = map Num [1, 0, 0, 0, 0, 1, 0, 0, 0, 0, 1, 0, 0, 0, 0, 1],
     RMXBone.pos = map Num [0, 0, 0], RMXBone.rot = map Num [0, 0, 0, 1],
     RMXBone.scl = map Num [1, 1, 1] \<rparr>"

definition example_child :: RMXBone where
  "example_child = \<lparr> RMXBone.name = ''child'', parent = 0, skinned = True,
     inv_bind_mat = map Num [1, 0, 0, 0, 0, 1, 0, 0, 0, 0, 1, 0, 0, 0, 0, 1],
     RMXBone.pos = map Num [0, 5, 0], RMXBone.rot = map Num [0, 0, 0, 1],
     RMXBone.scl = map Num [1, 1, 1] \<rparr>"

definition example_skeleton :: RMXSkeleton where
  "example_skeleton = \<lparr> bones = [example_root, example_child] \<rparr>"

definition example_track0 :: RMXAnimationTrack where
  "example_track0 = \<lparr> bone = 0,
     RMXAnimationTrack.pos = Some (map Num [0, 0, 0, 2, 0, 0]),
     RMXAnimationTrack.rot = Some (map Num [0, 0, 0, 1, 0, 1, 0, 0]),
     RMXAnimationTrack.scl = None \<rparr>"

definition example_track1 :: RMXAnimationTrack where
  "example_track1 = \<lparr> bone = 1, RMXAnimationTrack.pos = None,
     RMXAnimationTrack.rot = None, RMXAnimationTrack.scl = None \<rparr>"

definition example_animation :: RMXAnimation where
  "example_animation = \<lparr> RMXAnimation.name = ''walk'', frames = Num 2, fps = Num 30,
     tracks = [Some example_track0, Some example_track1] \<rparr>"

definition example_pose :: RMXPose where
  "example_pose = \<lparr> RMXPose.pos = replicate 6 (Num 0), RMXPose.rot = replicate 8 (Num 0),
     RMXPose.scl = replicate 6 (Num 0),
     world_matrices = replicate 2 (replicate 16 (Num 0)) \<rparr>"

subsection \<open>Auxiliary definitions for exportPose\<close>




section \<open>COLLADA.Loader.Source: parsing a source element\<close>


text \<open>The severities of the log; the loader uses these three.\<close>

datatype LogLevel = Warning | Error | Exception

text \<open>
  The context of a load: the log it writes to and the ids registered as link targets.
\<close>

record Context =
  log_entries :: "(string \<times> LogLevel) list"
  url_targets :: "string list"

text \<open>
  The content of the raw array of a source, tagged with the kind of array it came from.
  The decoding of the text into numbers or names is done by helpers of the context
  that are not modelled.
\<close>

datatype SourceData = Bools string | Floats string | Ints string | Strings string

text \<open>
  \<^verbatim>\<open>COLLADA.Loader.Source\<close>; \<open>element_id\<close> and \<open>element_name\<close> are the fields \<^verbatim>\<open>id\<close> and
  \<^verbatim>\<open>name\<close> of the base class. \<open>None\<close> is \<^verbatim>\<open>null\<close>. \<open>params\<close> is the object used as a
  dictionary, in insertion order.
\<close>

record Source =
  element_id :: "string option"
  element_name :: "string option"
  sourceId :: "string option"
  count :: "number option"
  stride :: "number option"
  offset :: "number option"
  data :: "SourceData option"
  params :: "(string \<times> string) list"


text \<open>A string or \<^verbatim>\<open>null\<close> inside a string concatenation.\<close>

definition js_string :: "string option \<Rightarrow> string" where
  "js_string s = (case s of None \<Rightarrow> ''null'' | Some x \<Rightarrow> x)"



text \<open>
  An exception thrown while parsing leaves the context as it was written so far: a
  failure is the error with that context.
\<close>

definition and_then ::
  "error \<times> Context + 'a \<Rightarrow> ('a \<Rightarrow> error \<times> Context + 'b) \<Rightarrow> error \<times> Context + 'b" where
  "and_then m f = (case m of Inl e \<Rightarrow> Inl e | Inr x \<Rightarrow> f x)"

subsection \<open>The helpers of the context\<close>










subsection \<open>The parse functions of Source\<close>


definition non_local_message :: "Source \<Rightarrow> string" where
  "non_local_message source =
     ''Source '' @ js_string (element_id source)
       @ '' uses a non-local data source, this is not supported''"





subsection \<open>An example document\<close>





section \<open>Properties of optimalSize\<close>

lemma capacity_pow2: "1 \<le> k \<Longrightarrow> capacity (2 ^ k) = 4 ^ (k - 1)"
proof -
  assume "1 \<le> k"
  then obtain j where k: "k = Suc j" by (cases k) auto
  have "(2::real) ^ Suc j * 2 ^ Suc j = 4 * 4 ^ j"
    by (simp add: power_mult_distrib [symmetric])
  then show ?thesis by (simp add: capacity_def k)
qed

lemma capacity_pow2_mono: "1 \<le> j \<Longrightarrow> j \<le> k \<Longrightarrow> capacity (2 ^ j) \<le> capacity (2 ^ k)"
  by (simp add: capacity_pow2 power_increasing)

lemma optimalSize_loop_return:
  "\<not> capacity r < n \<Longrightarrow> optimalSize_loop n r = Some (Inr r)"
  by (subst optimalSize_loop.simps) simp

lemma optimalSize_loop_double:
  "capacity r < n \<Longrightarrow> r * 2 \<le> 2048 \<Longrightarrow>
   optimalSize_loop n r = optimalSize_loop n (r * 2)"
  by (subst optimalSize_loop.simps) (simp add: Let_def)

lemma optimalSize_loop_throw:
  "capacity r < n \<Longrightarrow> 2048 < r * 2 \<Longrightarrow>
   optimalSize_loop n r = Some (Inl (error.Error ''Too many bones''))"
  by (subst optimalSize_loop.simps) (simp add: Let_def)

lemma pow2_le_2048: "k \<le> 11 \<Longrightarrow> (2::real) ^ k \<le> 2048"
proof -
  assume "k \<le> 11"
  then have "(2::real) ^ k \<le> 2 ^ 11" by (intro power_increasing) auto
  then show ?thesis by simp
qed

lemma optimalSize_reach:
  "1 \<le> k \<Longrightarrow> k \<le> 11 \<Longrightarrow> (\<forall>j. 1 \<le> j \<and> j < k \<longrightarrow> capacity (2 ^ j) < n) \<Longrightarrow>
   optimalSize n = optimalSize_loop n (2 ^ k)"
proof (induction k)
  case 0
  then show ?case by simp
next
  case (Suc k)
  show ?case
  proof (cases "k = 0")
    case True
    then show ?thesis by (simp add: optimalSize_def)
  next
    case False
    then have k1: "1 \<le> k" by simp
    have below: "capacity (2 ^ k) < n" using Suc.prems(3) k1 by simp
    have "optimalSize n = optimalSize_loop n (2 ^ k)"
      using Suc.IH k1 Suc.prems by simp
    also have "\<dots> = optimalSize_loop n (2 ^ k * 2)"
      using below pow2_le_2048 [of "Suc k"] Suc.prems(2)
      by (intro optimalSize_loop_double) (simp_all add: mult.commute)
    finally show ?thesis by (simp add: mult.commute)
  qed
qed

lemma optimalSize_fits:
  assumes k: "1 \<le> k" "k \<le> 11"
    and below: "\<forall>j. 1 \<le> j \<and> j < k \<longrightarrow> capacity (2 ^ j) < n"
    and fits: "n \<le> capacity (2 ^ k)"
  shows "optimalSize n = Some (Inr (2 ^ k))"
  using optimalSize_reach [OF k below] fits
  by (simp add: optimalSize_loop_return)

lemma optimalSize_too_many:
  assumes "1048576 < n"
  shows "optimalSize n = Some (Inl (error.Error ''Too many bones''))"
proof -
  have cap: "capacity (2 ^ j) < n" if "1 \<le> j" "j \<le> 11" for j
  proof -
    have "capacity (2 ^ j) \<le> capacity (2 ^ 11)"
      using that by (intro capacity_pow2_mono) auto
    also have "\<dots> = 1048576" by (simp add: capacity_def)
    finally show ?thesis using assms by simp
  qed
  have "optimalSize n = optimalSize_loop n (2 ^ 11)"
    by (intro optimalSize_reach) (auto intro: cap)
  also have "\<dots> = Some (Inl (error.Error ''Too many bones''))"
    using cap [of 11] by (intro optimalSize_loop_throw) simp_all
  finally show ?thesis .
qed




section \<open>Arrays written block by block\<close>

lemma fold_update_length:
  "length (fold (\<lambda>i xs. xs[off + i := g i]) [0..<w] xs) = length xs"
  by (induction w) simp_all

lemma fold_update_nth:
  "fold (\<lambda>i xs. xs[off + i := g i]) [0..<w] xs ! k =
     (if off \<le> k \<and> k < off + w \<and> k < length xs then g (k - off) else xs ! k)"
proof (induction w)
  case 0
  then show ?case by auto
next
  case (Suc w)
  show ?case
  proof (cases "k = off + w")
    case True
    then show ?thesis using Suc
      by (cases "k < length xs") (simp_all add: fold_update_length list_update_beyond)
  next
    case False
    then show ?thesis using Suc by (auto simp: fold_update_length)
  qed
qed

lemma write_block_length: "length (write_block w v j xs) = length xs"
  by (simp add: write_block_def fold_update_length)

lemma write_block_nth:
  "write_block w v j xs ! k =
     (if j * w \<le> k \<and> k < j * w + w \<and> k < length xs then v j (k - j * w) else xs ! k)"
  by (simp add: write_block_def fold_update_nth)

lemma write_blocks_length: "length (fold (write_block w v) js xs) = length xs"
  by (induction js arbitrary: xs) (simp_all add: write_block_length)

lemma block_index:
  fixes j k w :: nat
  assumes "j * w \<le> k" "k < j * w + w"
  shows "k div w = j" "k mod w = k - j * w"
proof -
  have w: "0 < w" using assms by (cases w) auto
  obtain i where i: "k = j * w + i" "i < w"
    using assms by (metis add.commute le_Suc_ex nat_add_left_cancel_less)
  show "k div w = j" using i w by simp
  show "k mod w = k - j * w" using i w by simp
qed

lemma write_blocks_nth:
  "fold (write_block w v) js xs ! k =
     (if (\<exists>j \<in> set js. j * w \<le> k \<and> k < j * w + w) \<and> k < length xs
      then v (k div w) (k mod w) else xs ! k)"
proof (induction js arbitrary: xs)
  case Nil
  then show ?case by simp
next
  case (Cons j js)
  show ?case
    using block_index [of j w k]
    by (auto simp: Cons write_block_length write_block_nth)
qed

lemma write_blocks_at:
  assumes "j \<in> set js" "i < w" "j * w + i < length xs"
  shows "fold (write_block w v) js xs ! (j * w + i) = v j i"
proof -
  have "(j * w + i) div w = j" "(j * w + i) mod w = i" using assms(2) by simp_all
  moreover have "\<exists>j' \<in> set js. j' * w \<le> j * w + i \<and> j * w + i < j' * w + w"
    using assms by (intro bexI [of _ j]) simp_all
  ultimately show ?thesis using assms(3) by (simp add: write_blocks_nth)
qed

lemma write_block_3: "write_block 3 v j xs = xs[j * 3 := v j 0, j * 3 + 1 := v j 1, j * 3 + 2 := v j 2]"
proof -
  have "[0..<3] = [0, 1, 2]" by (simp add: upt_rec)
  then show ?thesis by (simp add: write_block_def)
qed

lemma write_block_4:
  "write_block 4 v j xs = xs[j * 4 := v j 0, j * 4 + 1 := v j 1, j * 4 + 2 := v j 2, j * 4 + 3 := v j 3]"
proof -
  have "[0..<4] = [0, 1, 2, 3]" by (simp add: upt_rec)
  then show ?thesis by (simp add: write_block_def)
qed

section \<open>Properties of sampleAnimation\<close>

lemma sampleAnimation_body_present:
  assumes "lookup (tracks animation) b = Some (Some track)"
  shows "sampleAnimation_body gl animation skeleton fv pose b =
     Inr (pose\<lparr>RMXPose.pos := (RMXPose.pos pose)
                  [b * 3 := pos_value fv track (bones skeleton ! b) 0,
                   b * 3 + 1 := pos_value fv track (bones skeleton ! b) 1,
                   b * 3 + 2 := pos_value fv track (bones skeleton ! b) 2],
                RMXPose.rot := (RMXPose.rot pose)
                  [b * 4 := rot_value gl fv track (bones skeleton ! b) 0,
                   b * 4 + 1 := rot_value gl fv track (bones skeleton ! b) 1,
                   b * 4 + 2 := rot_value gl fv track (bones skeleton ! b) 2,
                   b * 4 + 3 := rot_value gl fv track (bones skeleton ! b) 3],
                RMXPose.scl := (RMXPose.scl pose)
                  [b * 3 := scl_value fv track (bones skeleton ! b) 0,
                   b * 3 + 1 := scl_value fv track (bones skeleton ! b) 1,
                   b * 3 + 2 := scl_value fv track (bones skeleton ! b) 2]\<rparr>)"
  using assms
  by (simp add: sampleAnimation_body_def pos_value_def rot_value_def scl_value_def quat_at_def
        Let_def split: option.splits)

lemma sampleAnimation_body_absent:
  assumes "lookup (tracks animation) b = None \<or> lookup (tracks animation) b = Some None"
  shows "sampleAnimation_body gl animation skeleton fv pose b = Inl TypeError"
  using assms by (auto simp: sampleAnimation_body_def)

lemma sampleAnimation_body_blocks:
  assumes "lookup (tracks animation) b = Some (Some track)"
  shows "sampleAnimation_body gl animation skeleton fv pose b =
     Inr (pose\<lparr>RMXPose.pos := write_block 3 (sampled_pos fv animation skeleton) b (RMXPose.pos pose),
                RMXPose.rot := write_block 4 (sampled_rot gl fv animation skeleton) b (RMXPose.rot pose),
                RMXPose.scl := write_block 3 (sampled_scl fv animation skeleton) b (RMXPose.scl pose)\<rparr>)"
  using assms
  by (simp add: sampleAnimation_body_present write_block_3 write_block_4
        sampled_pos_def sampled_rot_def sampled_scl_def)

lemma sampleAnimation_loop_closed:
  assumes "tracks_present animation skeleton"
  shows "sampleAnimation_loop gl animation skeleton fv pose b =
     Inr (pose\<lparr>RMXPose.pos := fold (write_block 3 (sampled_pos fv animation skeleton))
                                 [b..<length (bones skeleton)] (RMXPose.pos pose),
                RMXPose.rot := fold (write_block 4 (sampled_rot gl fv animation skeleton))
                                 [b..<length (bones skeleton)] (RMXPose.rot pose),
                RMXPose.scl := fold (write_block 3 (sampled_scl fv animation skeleton))
                                 [b..<length (bones skeleton)] (RMXPose.scl pose)\<rparr>)"
  using assms
proof (induction gl animation skeleton fv pose b rule: sampleAnimation_loop.induct)
  case (1 gl animation skeleton fv pose b)
  show ?case
  proof (cases "b < length (bones skeleton)")
    case False
    then show ?thesis by (subst sampleAnimation_loop.simps) simp
  next
    case True
    then obtain t where t: "lookup (tracks animation) b = Some (Some t)"
      using "1.prems" by (auto simp: tracks_present_def)
    note body = sampleAnimation_body_blocks [OF t, of gl skeleton fv pose]
    have up: "[b..<length (bones skeleton)] = b # [b + 1..<length (bones skeleton)]"
      using True by (simp add: upt_conv_Cons)
    have "sampleAnimation_loop gl animation skeleton fv pose b =
          sampleAnimation_loop gl animation skeleton fv
            (pose\<lparr>RMXPose.pos := write_block 3 (sampled_pos fv animation skeleton) b (RMXPose.pos pose),
                RMXPose.rot := write_block 4 (sampled_rot gl fv animation skeleton) b (RMXPose.rot pose),
                RMXPose.scl := write_block 3 (sampled_scl fv animation skeleton) b (RMXPose.scl pose)\<rparr>)
            (b + 1)"
      by (subst sampleAnimation_loop.simps) (simp add: True body)
    also note "1.IH" [OF True body "1.prems"]
    finally show ?thesis by (simp add: up)
  qed
qed

lemma sampleAnimation_closed:
  assumes "tracks_present animation skeleton"
  shows "sampleAnimation gl animation skeleton pose frame =
     Inr (pose\<lparr>RMXPose.pos := fold (write_block 3 (sampled_pos (sampleAnimation_frame animation frame) animation skeleton))
                                 [0..<length (bones skeleton)] (RMXPose.pos pose),
                RMXPose.rot := fold (write_block 4 (sampled_rot gl (sampleAnimation_frame animation frame) animation skeleton))
                                 [0..<length (bones skeleton)] (RMXPose.rot pose),
                RMXPose.scl := fold (write_block 3 (sampled_scl (sampleAnimation_frame animation frame) animation skeleton))
                                 [0..<length (bones skeleton)] (RMXPose.scl pose)\<rparr>)"
  by (simp add: sampleAnimation_def sampleAnimation_loop_closed [OF assms])

lemma lookup_nth: "lookup xs b = Some y \<longleftrightarrow> b < length xs \<and> xs ! b = y"
  by (auto simp: lookup_def)

text \<open>What a successful call stores, bone by bone.\<close>

lemma sampleAnimation_values:
  assumes tp: "tracks_present animation skeleton" and pf: "pose_for skeleton pose"
  shows "\<exists>pose'. sampleAnimation gl animation skeleton pose frame = Inr pose'
     \<and> pose_for skeleton pose'
     \<and> world_matrices pose' = world_matrices pose
     \<and> (\<forall>b t. b < length (bones skeleton) \<and> tracks animation ! b = Some t \<longrightarrow>
          (\<forall>i<3. RMXPose.pos pose' ! (b * 3 + i) =
                   pos_value (sampleAnimation_frame animation frame) t (bones skeleton ! b) i)
        \<and> (\<forall>i<4. RMXPose.rot pose' ! (b * 4 + i) =
                   rot_value gl (sampleAnimation_frame animation frame) t (bones skeleton ! b) i)
        \<and> (\<forall>i<3. RMXPose.scl pose' ! (b * 3 + i) =
                   scl_value (sampleAnimation_frame animation frame) t (bones skeleton ! b) i))"
proof -
  let ?n = "length (bones skeleton)"
  let ?fv = "sampleAnimation_frame animation frame"
  have len: "length (RMXPose.pos pose) = ?n * 3" "length (RMXPose.rot pose) = ?n * 4"
    "length (RMXPose.scl pose) = ?n * 3"
    using pf by (simp_all add: pose_for_def)
  have vals: "sampled_pos ?fv animation skeleton b i = pos_value ?fv t (bones skeleton ! b) i"
    "sampled_rot gl ?fv animation skeleton b i = rot_value gl ?fv t (bones skeleton ! b) i"
    "sampled_scl ?fv animation skeleton b i = scl_value ?fv t (bones skeleton ! b) i"
    if "b < ?n" "tracks animation ! b = Some t" for b t i
  proof -
    from tp that(1) obtain t' where "lookup (tracks animation) b = Some (Some t')"
      by (auto simp: tracks_present_def)
    with that(2) have "lookup (tracks animation) b = Some (Some t)"
      by (simp add: lookup_nth)
    then show "sampled_pos ?fv animation skeleton b i = pos_value ?fv t (bones skeleton ! b) i"
      "sampled_rot gl ?fv animation skeleton b i = rot_value gl ?fv t (bones skeleton ! b) i"
      "sampled_scl ?fv animation skeleton b i = scl_value ?fv t (bones skeleton ! b) i"
      by (simp_all add: sampled_pos_def sampled_rot_def sampled_scl_def)
  qed
  have in3: "b * 3 + i < ?n * 3" if "b < ?n" "i < 3" for b i using that by auto
  have in4: "b * 4 + i < ?n * 4" if "b < ?n" "i < 4" for b i using that by auto
  define pose' where "pose' = pose\<lparr>RMXPose.pos := fold (write_block 3 (sampled_pos ?fv animation skeleton))
                                 [0..<?n] (RMXPose.pos pose),
                RMXPose.rot := fold (write_block 4 (sampled_rot gl ?fv animation skeleton))
                                 [0..<?n] (RMXPose.rot pose),
                RMXPose.scl := fold (write_block 3 (sampled_scl ?fv animation skeleton))
                                 [0..<?n] (RMXPose.scl pose)\<rparr>"
  have res: "sampleAnimation gl animation skeleton pose frame = Inr pose'"
    unfolding pose'_def by (rule sampleAnimation_closed [OF tp])
  have pf': "pose_for skeleton pose'"
    using pf by (simp add: pose'_def pose_for_def write_blocks_length)
  have wm: "world_matrices pose' = world_matrices pose"
    by (simp add: pose'_def)
  have p: "RMXPose.pos pose' ! (b * 3 + i) = pos_value ?fv t (bones skeleton ! b) i"
    if "b < ?n" "tracks animation ! b = Some t" "i < 3" for b t i
    using that in3 [of b i] vals(1) [of b t i]
    by (simp add: pose'_def write_blocks_at len del: upt_Suc)
  have r: "RMXPose.rot pose' ! (b * 4 + i) = rot_value gl ?fv t (bones skeleton ! b) i"
    if "b < ?n" "tracks animation ! b = Some t" "i < 4" for b t i
    using that in4 [of b i] vals(2) [of b t i]
    by (simp add: pose'_def write_blocks_at len del: upt_Suc)
  have s: "RMXPose.scl pose' ! (b * 3 + i) = scl_value ?fv t (bones skeleton ! b) i"
    if "b < ?n" "tracks animation ! b = Some t" "i < 3" for b t i
    using that in3 [of b i] vals(3) [of b t i]
    by (simp add: pose'_def write_blocks_at len del: upt_Suc)
  show ?thesis
    using res pf' wm p r s by blast
qed







lemma sampleAnimation_frame_zero:
  assumes "frames animation = Num 0"
  shows "sampleAnimation_frame animation frame =
     \<lparr> f13 = NaN, f14 = NaN, f23 = NaN, f24 = NaN, s1 = NaN, s2 = NaN \<rparr>"
proof -
  have "num_mod frame (Num 0) = NaN" by (cases frame) simp_all
  then show ?thesis using assms
    by (simp add: sampleAnimation_frame_def looped_def Let_def)
qed



lemma lerp_at_NaN: "s1 fv = NaN \<Longrightarrow> lerp_at fv arr fa fb i = NaN"
  by (simp add: lerp_at_def)


lemma quat_at_NaN: "quat_at arr NaN = [NaN, NaN, NaN, NaN]"
  by (simp add: quat_at_def elem_num_def index_of_def)



lemma example_tracks_present: "tracks_present example_animation example_skeleton"
  by (auto simp: tracks_present_def example_animation_def example_skeleton_def lookup_def
        less_Suc_eq numeral_2_eq_2)

lemma example_pose_for: "pose_for example_skeleton example_pose"
  by (simp add: pose_for_def example_skeleton_def example_pose_def)



text \<open>
  C4 (as amended). \<^verbatim>\<open>sampleAnimation\<close> does not check the frame count. With
  \<open>frames = 0\<close> the wrapped frame is \<open>NaN\<close>, and the call returns normally (given a track
  for every bone and a pose allocated for the skeleton), whatever the frame: it stores
  \<open>NaN\<close> in every position and scale component whose array is present, the result of
  \<^verbatim>\<open>quat.slerp\<close> on \<open>NaN\<close> arguments for a rotation that is present, and the bone's rest
  value for every component whose array is \<^verbatim>\<open>null\<close>.
\<close>

theorem sampleAnimation_zero_frames:
  assumes fr: "frames animation = Num 0"
    and tp: "tracks_present animation skeleton"
    and pf: "pose_for skeleton pose"
  shows "\<exists>pose'. sampleAnimation gl animation skeleton pose frame = Inr pose'
     \<and> (\<forall>b t. b < length (bones skeleton) \<and> tracks animation ! b = Some t \<longrightarrow>
          (\<forall>i<3. RMXPose.pos pose' ! (b * 3 + i) =
             (case RMXAnimationTrack.pos t of Some arr \<Rightarrow> NaN
              | None \<Rightarrow> elem (RMXBone.pos (bones skeleton ! b)) i))
        \<and> (\<forall>i<4. RMXPose.rot pose' ! (b * 4 + i) =
             (case RMXAnimationTrack.rot t of
                Some arr \<Rightarrow> elem (quat_slerp gl [NaN, NaN, NaN, NaN] [NaN, NaN, NaN, NaN] NaN) i
              | None \<Rightarrow> elem (RMXBone.rot (bones skeleton ! b)) i))
        \<and> (\<forall>i<3. RMXPose.scl pose' ! (b * 3 + i) =
             (case RMXAnimationTrack.scl t of Some arr \<Rightarrow> NaN
              | None \<Rightarrow> elem (RMXBone.scl (bones skeleton ! b)) i)))"
proof -
  let ?fv = "sampleAnimation_frame animation frame"
  note fv = sampleAnimation_frame_zero [OF fr, of frame]
  have p: "pos_value ?fv t bn i =
      (case RMXAnimationTrack.pos t of Some arr \<Rightarrow> NaN | None \<Rightarrow> elem (RMXBone.pos bn) i)"
    for t bn i
    by (simp add: pos_value_def fv lerp_at_NaN split: option.splits)
  have s: "scl_value ?fv t bn i =
      (case RMXAnimationTrack.scl t of Some arr \<Rightarrow> NaN | None \<Rightarrow> elem (RMXBone.scl bn) i)"
    for t bn i
    by (simp add: scl_value_def fv lerp_at_NaN split: option.splits)
  have r: "rot_value gl ?fv t bn i =
      (case RMXAnimationTrack.rot t of
         Some arr \<Rightarrow> elem (quat_slerp gl [NaN, NaN, NaN, NaN] [NaN, NaN, NaN, NaN] NaN) i
       | None \<Rightarrow> elem (RMXBone.rot bn) i)"
    for t bn i
    by (simp add: rot_value_def fv quat_at_NaN split: option.splits)
  show ?thesis
    using sampleAnimation_values [OF tp pf, of gl frame]
    unfolding p s r by blast
qed

theorem sampleAnimation_zero_frames_witness:
  "frames (example_animation\<lparr>frames := Num 0\<rparr>) = Num 0
   \<and> tracks_present (example_animation\<lparr>frames := Num 0\<rparr>) example_skeleton
   \<and> pose_for example_skeleton example_pose
   \<and> (\<exists>pose'. sampleAnimation example_gl (example_animation\<lparr>frames := Num 0\<rparr>)
                   example_skeleton example_pose (Num (1 / 2)) = Inr pose'
        \<and> RMXPose.pos pose' ! (0 * 3 + 0) = NaN
        \<and> RMXPose.scl pose' ! (0 * 3 + 0) = Num 1)"
proof -
  have h1: "frames (example_animation\<lparr>frames := Num 0\<rparr>) = Num 0" by simp
  have h2: "tracks_present (example_animation\<lparr>frames := Num 0\<rparr>) example_skeleton"
    using example_tracks_present by (simp add: tracks_present_def)
  note th = sampleAnimation_zero_frames [OF h1 h2 example_pose_for, of example_gl "Num (1 / 2)"]
  then obtain pose' where
    res: "sampleAnimation example_gl (example_animation\<lparr>frames := Num 0\<rparr>)
            example_skeleton example_pose (Num (1 / 2)) = Inr pose'"
    and vals: "\<forall>b t. b < length (bones example_skeleton)
          \<and> tracks (example_animation\<lparr>frames := Num 0\<rparr>) ! b = Some t \<longrightarrow>
          (\<forall>i<3. RMXPose.pos pose' ! (b * 3 + i) =
             (case RMXAnimationTrack.pos t of Some arr \<Rightarrow> NaN
              | None \<Rightarrow> elem (RMXBone.pos (bones example_skeleton ! b)) i))
        \<and> (\<forall>i<4. RMXPose.rot pose' ! (b * 4 + i) =
             (case RMXAnimationTrack.rot t of
                Some arr \<Rightarrow> elem (quat_slerp example_gl [NaN, NaN, NaN, NaN] [NaN, NaN, NaN, NaN] NaN) i
              | None \<Rightarrow> elem (RMXBone.rot (bones example_skeleton ! b)) i))
        \<and> (\<forall>i<3. RMXPose.scl pose' ! (b * 3 + i) =
             (case RMXAnimationTrack.scl t of Some arr \<Rightarrow> NaN
              | None \<Rightarrow> elem (RMXBone.scl (bones example_skeleton ! b)) i))"
    by auto
  have b0: "0 < length (bones example_skeleton)
      \<and> tracks (example_animation\<lparr>frames := Num 0\<rparr>) ! 0 = Some example_track0"
    by (simp add: example_skeleton_def example_animation_def)
  have i0: "(0::nat) < 3" by simp
  have "RMXPose.pos pose' ! (0 * 3 + 0) =
      (case RMXAnimationTrack.pos example_track0 of Some arr \<Rightarrow> NaN
       | None \<Rightarrow> elem (RMXBone.pos (bones example_skeleton ! 0)) 0)"
    using vals b0 i0 by blast
  then have p: "RMXPose.pos pose' ! (0 * 3 + 0) = NaN"
    by (simp add: example_track0_def)
  have "RMXPose.scl pose' ! (0 * 3 + 0) =
      (case RMXAnimationTrack.scl example_track0 of Some arr \<Rightarrow> NaN
       | None \<Rightarrow> elem (RMXBone.scl (bones example_skeleton ! 0)) 0)"
    using vals b0 i0 by blast
  then have s: "RMXPose.scl pose' ! (0 * 3 + 0) = Num 1"
    by (simp add: example_track0_def example_skeleton_def example_root_def elem_def)
  show ?thesis using h1 h2 example_pose_for res p s by auto
qed

text \<open>
  The claim C4 as stated fails: a call with \<open>frames = 0\<close> is not rejected, it returns a
  pose with \<open>NaN\<close> entries.
\<close>

theorem sampleAnimation_zero_frames_not_rejected:
  "sampleAnimation example_gl (example_animation\<lparr>frames := Num 0\<rparr>) example_skeleton
     example_pose (Num 0) =
   Inr \<lparr>RMXPose.pos = [NaN, NaN, NaN, Num 0, Num 5, Num 0],
        RMXPose.rot = [NaN, NaN, NaN, NaN, Num 0, Num 0, Num 0, Num 1],
        RMXPose.scl = [Num 1, Num 1, Num 1, Num 1, Num 1, Num 1],
        world_matrices = replicate 2 (replicate 16 (Num 0)) \<rparr>"
  by code_simp

lemma lookup_same_but_bone:
  assumes "list_all2 same_but_bone ts1 ts2"
  shows "(lookup ts1 b = None \<and> lookup ts2 b = None)
       \<or> (lookup ts1 b = Some None \<and> lookup ts2 b = Some None)
       \<or> (\<exists>x y. lookup ts1 b = Some (Some x) \<and> lookup ts2 b = Some (Some y)
            \<and> RMXAnimationTrack.pos x = RMXAnimationTrack.pos y
            \<and> RMXAnimationTrack.rot x = RMXAnimationTrack.rot y
            \<and> RMXAnimationTrack.scl x = RMXAnimationTrack.scl y)"
proof (cases "b < length ts1")
  case False
  then show ?thesis using list_all2_lengthD [OF assms] by (simp add: lookup_def)
next
  case True
  then have "same_but_bone (ts1 ! b) (ts2 ! b)" using assms by (simp add: list_all2_nthD)
  then show ?thesis
    using True list_all2_lengthD [OF assms]
    by (auto simp: lookup_def same_but_bone_def split: option.splits)
qed

lemma sampleAnimation_body_same_but_bone:
  assumes "list_all2 same_but_bone (tracks a1) (tracks a2)"
  shows "sampleAnimation_body gl a1 skeleton fv pose b = sampleAnimation_body gl a2 skeleton fv pose b"
  using lookup_same_but_bone [OF assms, of b]
  by (auto simp: sampleAnimation_body_def)

lemma sampleAnimation_loop_same_but_bone:
  assumes "list_all2 same_but_bone (tracks a1) (tracks a2)"
  shows "sampleAnimation_loop gl a1 skeleton fv pose b = sampleAnimation_loop gl a2 skeleton fv pose b"
proof (induction "length (bones skeleton) - b" arbitrary: b pose)
  case 0
  then show ?case by (simp add: sampleAnimation_loop.simps)
next
  case (Suc k)
  then have b: "b < length (bones skeleton)" and k: "k = length (bones skeleton) - Suc b"
    by simp_all
  note body = sampleAnimation_body_same_but_bone [OF assms, of gl skeleton fv pose b]
  show ?case
    by (subst sampleAnimation_loop.simps, subst (2) sampleAnimation_loop.simps)
       (simp add: b body Suc.hyps(1) [OF k] split: sum.splits)
qed

text \<open>
  C9. Two animations with the same frame count whose track lists agree entry by entry
  in everything but the \<open>bone\<close> fields give the same result of \<^verbatim>\<open>sampleAnimation\<close>
  (the same pose, or the same exception with the same partly written pose), for every
  skeleton, pose and frame: track \<open>i\<close> is paired with bone \<open>i\<close> by position alone.
\<close>

theorem sampleAnimation_ignores_track_bone:
  assumes "frames a1 = frames a2"
    and "list_all2 same_but_bone (tracks a1) (tracks a2)"
  shows "sampleAnimation gl a1 skeleton pose frame = sampleAnimation gl a2 skeleton pose frame"
proof -
  have "sampleAnimation_frame a1 frame = sampleAnimation_frame a2 frame"
    using assms(1) by (simp add: sampleAnimation_frame_def)
  then show ?thesis
    by (simp add: sampleAnimation_def sampleAnimation_loop_same_but_bone [OF assms(2)])
qed

theorem sampleAnimation_ignores_track_bone_witness:
  "frames example_animation
     = frames (example_animation\<lparr>tracks := [Some (example_track0\<lparr>bone := 7\<rparr>),
                                             Some (example_track1\<lparr>bone := - 3\<rparr>)]\<rparr>)
   \<and> list_all2 same_but_bone (tracks example_animation)
        (tracks (example_animation\<lparr>tracks := [Some (example_track0\<lparr>bone := 7\<rparr>),
                                              Some (example_track1\<lparr>bone := - 3\<rparr>)]\<rparr>))
   \<and> bone example_track0 \<noteq> bone (example_track0\<lparr>bone := 7\<rparr>)
   \<and> sampleAnimation example_gl example_animation example_skeleton example_pose (Num (1 / 2))
     = sampleAnimation example_gl
         (example_animation\<lparr>tracks := [Some (example_track0\<lparr>bone := 7\<rparr>),
                                       Some (example_track1\<lparr>bone := - 3\<rparr>)]\<rparr>)
         example_skeleton example_pose (Num (1 / 2))"
proof -
  let ?a2 = "example_animation\<lparr>tracks := [Some (example_track0\<lparr>bone := 7\<rparr>),
                                             Some (example_track1\<lparr>bone := - 3\<rparr>)]\<rparr>"
  have h1: "frames example_animation = frames ?a2" by simp
  have h2: "list_all2 same_but_bone (tracks example_animation) (tracks ?a2)"
    by (simp add: example_animation_def same_but_bone_def)
  have h3: "bone example_track0 \<noteq> bone (example_track0\<lparr>bone := 7\<rparr>)"
    by (simp add: example_track0_def)
  show ?thesis
    using h1 h2 h3 sampleAnimation_ignores_track_bone [OF h1 h2, of example_gl example_skeleton
        example_pose "Num (1 / 2)"]
    by blast
qed

lemma sampleAnimation_body_error:
  "sampleAnimation_body gl animation skeleton fv pose b = Inl e \<Longrightarrow> e = TypeError"
  by (auto simp: sampleAnimation_body_def Let_def split: option.splits)

text \<open>
  In general: a track that is \<^verbatim>\<open>null\<close> or missing for some bone makes the call throw a
  \<open>TypeError\<close>, at that bone at the latest.
\<close>

lemma sampleAnimation_loop_null_track:
  assumes "j < length (bones skeleton)"
    and "lookup (tracks animation) j = None \<or> lookup (tracks animation) j = Some None"
  shows "b \<le> j \<Longrightarrow> \<exists>p. sampleAnimation_loop gl animation skeleton fv pose b = Inl (TypeError, p)"
proof (induction "j - b" arbitrary: b pose)
  case 0
  then have "b = j" by simp
  then show ?case
    using assms sampleAnimation_body_absent [OF assms(2), of gl skeleton fv pose]
    by (subst sampleAnimation_loop.simps) simp
next
  case (Suc k)
  then have b: "b < length (bones skeleton)" and k: "k = j - Suc b" and le: "Suc b \<le> j"
    using assms(1) by simp_all
  show ?case
  proof (cases "sampleAnimation_body gl animation skeleton fv pose b")
    case (Inl e)
    then show ?thesis
      using b sampleAnimation_body_error [OF Inl]
      by (subst sampleAnimation_loop.simps) simp
  next
    case (Inr pose1)
    from Suc.hyps(1) [OF k le, of pose1] show ?thesis
      using b Inr by (subst sampleAnimation_loop.simps) simp
  qed
qed

lemma sampleAnimation_null_track:
  assumes "j < length (bones skeleton)"
    and "lookup (tracks animation) j = None \<or> lookup (tracks animation) j = Some None"
  shows "\<exists>p. sampleAnimation gl animation skeleton pose frame = Inl (TypeError, p)"
  unfolding sampleAnimation_def
  using sampleAnimation_loop_null_track [OF assms, of 0] by simp

text \<open>
  C3 at the failing input: the track list holds \<^verbatim>\<open>null\<close> for the second bone, which has
  no animation. The call does not store that bone's rest values: it throws a
  \<open>TypeError\<close> on reading \<^verbatim>\<open>track.pos\<close>, after the first bone was written.
\<close>

theorem sampleAnimation_null_track_throws:
  "sampleAnimation example_gl (example_animation\<lparr>tracks := [Some example_track0, None]\<rparr>)
     example_skeleton example_pose (Num 0) =
   Inl (TypeError,
        \<lparr>RMXPose.pos = [Num 0, Num 0, Num 0, Num 0, Num 0, Num 0],
         RMXPose.rot = [Num 0, Num 0, Num 0, Num 1, Num 0, Num 0, Num 0, Num 0],
         RMXPose.scl = [Num 1, Num 1, Num 1, Num 0, Num 0, Num 0],
         world_matrices = replicate 2 (replicate 16 (Num 0)) \<rparr>)"
  by code_simp

section \<open>Properties of optimalSize at the limits\<close>

lemma optimalSize_100000: "optimalSize 100000 = Some (Inr 1024)"
proof -
  have below: "\<forall>j. 1 \<le> j \<and> j < 10 \<longrightarrow> capacity (2 ^ j) < 100000"
  proof (intro allI impI)
    fix j :: nat assume j: "1 \<le> j \<and> j < 10"
    then have "capacity (2 ^ j) \<le> capacity (2 ^ 9)"
      by (intro capacity_pow2_mono) auto
    also have "\<dots> = 65536" by (simp add: capacity_def)
    finally show "capacity (2 ^ j) < 100000" by simp
  qed
  have "optimalSize 100000 = Some (Inr (2 ^ 10))"
    using below by (intro optimalSize_fits) (simp_all add: capacity_def)
  then show ?thesis by simp
qed

lemma optimalSize_1048576: "optimalSize 1048576 = Some (Inr 2048)"
proof -
  have below: "\<forall>j. 1 \<le> j \<and> j < 11 \<longrightarrow> capacity (2 ^ j) < 1048576"
  proof (intro allI impI)
    fix j :: nat assume j: "1 \<le> j \<and> j < 11"
    then have "capacity (2 ^ j) \<le> capacity (2 ^ 10)"
      by (intro capacity_pow2_mono) auto
    also have "\<dots> = 262144" by (simp add: capacity_def)
    finally show "capacity (2 ^ j) < 1048576" by simp
  qed
  have "optimalSize 1048576 = Some (Inr (2 ^ 11))"
    using below by (intro optimalSize_fits) (simp_all add: capacity_def)
  then show ?thesis by simp
qed

text \<open>
  The claim C6 as stated fails: \<open>optimalSize 100000\<close> returns \<open>1024\<close>.
\<close>

theorem optimalSize_100000_returns: "optimalSize 100000 = Some (Inr 1024)"
  by (rule optimalSize_100000)

text \<open>
  C6 (as amended). \<open>optimalSize 100000\<close> returns \<open>1024\<close> (capacity \<open>262144\<close>); the largest
  bone count that still gets a size is \<open>1048576\<close>, the capacity of side \<open>2048\<close>, and
  \<open>optimalSize 1048577\<close> throws \<^verbatim>\<open>Too many bones\<close>.
\<close>

theorem optimalSize_capacity_error_threshold:
  "optimalSize 100000 = Some (Inr 1024)
   \<and> optimalSize 1048576 = Some (Inr 2048)
   \<and> optimalSize 1048577 = Some (Inl (error.Error ''Too many bones''))"
  using optimalSize_100000 optimalSize_1048576 optimalSize_too_many [of 1048577] by simp

section \<open>Properties of the material hash\<close>

lemma split_at_bar:
  assumes "CHR ''|'' \<notin> set a" "CHR ''|'' \<notin> set b" "a @ CHR ''|'' # r = b @ CHR ''|'' # s"
  shows "a = b \<and> r = s"
  using assms
proof (induction a arbitrary: b)
  case Nil
  then show ?case by (cases b) auto
next
  case (Cons x a)
  then show ?case by (cases b) auto
qed

text \<open>
  The claim C8 as stated fails: materials that differ in two fields can have the same
  hash (a separator inside a field), and so can materials that differ in one field
  only (\<^verbatim>\<open>null\<close> against the empty string).
\<close>

theorem hash_collision:
  "\<lparr> diffuse = Some ''a|b'', specular = Some ''c'', normal = None \<rparr>
     \<noteq> \<lparr> diffuse = Some ''a'', specular = Some ''b|c'', normal = None \<rparr>
   \<and> hash \<lparr> diffuse = Some ''a|b'', specular = Some ''c'', normal = None \<rparr>
     = hash \<lparr> diffuse = Some ''a'', specular = Some ''b|c'', normal = None \<rparr>
   \<and> normal \<lparr> diffuse = Some ''a'', specular = Some ''b'', normal = None \<rparr>
     \<noteq> normal \<lparr> diffuse = Some ''a'', specular = Some ''b'', normal = Some '''' \<rparr>
   \<and> hash \<lparr> diffuse = Some ''a'', specular = Some ''b'', normal = None \<rparr>
     = hash \<lparr> diffuse = Some ''a'', specular = Some ''b'', normal = Some '''' \<rparr>"
  by (simp add: hash_def or_empty_def)

text \<open>
  C8 (as amended). Materials whose three fields are pairwise identical have identical
  hashes. Reading \<^verbatim>\<open>null\<close> as the empty string: two materials that agree in two of the
  fields have the same hash only if they agree in the third; and when no field
  contains the separator \<open>|\<close>, two materials have the same hash only if they agree in
  all three fields.
\<close>

theorem hash_identity:
  "(diffuse m1 = diffuse m2 \<and> specular m1 = specular m2 \<and> normal m1 = normal m2
      \<longrightarrow> hash m1 = hash m2)
   \<and> (hash m1 = hash m2
        \<and> ((or_empty (specular m1) = or_empty (specular m2) \<and> or_empty (normal m1) = or_empty (normal m2))
           \<or> (or_empty (diffuse m1) = or_empty (diffuse m2) \<and> or_empty (normal m1) = or_empty (normal m2))
           \<or> (or_empty (diffuse m1) = or_empty (diffuse m2) \<and> or_empty (specular m1) = or_empty (specular m2)))
      \<longrightarrow> or_empty (diffuse m1) = or_empty (diffuse m2)
          \<and> or_empty (specular m1) = or_empty (specular m2)
          \<and> or_empty (normal m1) = or_empty (normal m2))
   \<and> (hash m1 = hash m2
        \<and> CHR ''|'' \<notin> set (or_empty (diffuse m1)) \<and> CHR ''|'' \<notin> set (or_empty (diffuse m2))
        \<and> CHR ''|'' \<notin> set (or_empty (specular m1)) \<and> CHR ''|'' \<notin> set (or_empty (specular m2))
      \<longrightarrow> or_empty (diffuse m1) = or_empty (diffuse m2)
          \<and> or_empty (specular m1) = or_empty (specular m2)
          \<and> or_empty (normal m1) = or_empty (normal m2))"
proof (intro conjI impI)
  assume "diffuse m1 = diffuse m2 \<and> specular m1 = specular m2 \<and> normal m1 = normal m2"
  then show "hash m1 = hash m2" by (simp add: hash_def)
next
  assume a: "hash m1 = hash m2
        \<and> ((or_empty (specular m1) = or_empty (specular m2) \<and> or_empty (normal m1) = or_empty (normal m2))
           \<or> (or_empty (diffuse m1) = or_empty (diffuse m2) \<and> or_empty (normal m1) = or_empty (normal m2))
           \<or> (or_empty (diffuse m1) = or_empty (diffuse m2) \<and> or_empty (specular m1) = or_empty (specular m2)))"
  then have h: "or_empty (diffuse m1) @ ''|'' @ or_empty (specular m1) @ ''|'' @ or_empty (normal m1)
      = or_empty (diffuse m2) @ ''|'' @ or_empty (specular m2) @ ''|'' @ or_empty (normal m2)"
    by (simp add: hash_def)
  from a consider
      "or_empty (specular m1) = or_empty (specular m2)" "or_empty (normal m1) = or_empty (normal m2)"
    | "or_empty (diffuse m1) = or_empty (diffuse m2)" "or_empty (normal m1) = or_empty (normal m2)"
    | "or_empty (diffuse m1) = or_empty (diffuse m2)" "or_empty (specular m1) = or_empty (specular m2)"
    by blast
  then have all: "or_empty (diffuse m1) = or_empty (diffuse m2)
          \<and> or_empty (specular m1) = or_empty (specular m2)
          \<and> or_empty (normal m1) = or_empty (normal m2)"
  proof cases
    case 1
    then show ?thesis using h by simp
  next
    case 2
    then show ?thesis using h by simp
  next
    case 3
    then show ?thesis using h by simp
  qed
  show "or_empty (diffuse m1) = or_empty (diffuse m2)" using all by simp
  show "or_empty (specular m1) = or_empty (specular m2)" using all by simp
  show "or_empty (normal m1) = or_empty (normal m2)" using all by simp
next
  assume a: "hash m1 = hash m2
        \<and> CHR ''|'' \<notin> set (or_empty (diffuse m1)) \<and> CHR ''|'' \<notin> set (or_empty (diffuse m2))
        \<and> CHR ''|'' \<notin> set (or_empty (specular m1)) \<and> CHR ''|'' \<notin> set (or_empty (specular m2))"
  then have h: "or_empty (diffuse m1) @ CHR ''|'' # (or_empty (specular m1) @ CHR ''|'' # or_empty (normal m1))
      = or_empty (diffuse m2) @ CHR ''|'' # (or_empty (specular m2) @ CHR ''|'' # or_empty (normal m2))"
    by (simp add: hash_def)
  from a have d: "or_empty (diffuse m1) = or_empty (diffuse m2)"
    and h2: "or_empty (specular m1) @ CHR ''|'' # or_empty (normal m1)
      = or_empty (specular m2) @ CHR ''|'' # or_empty (normal m2)"
    using split_at_bar [OF _ _ h] by simp_all
  from a have sn: "or_empty (specular m1) = or_empty (specular m2) \<and> or_empty (normal m1) = or_empty (normal m2)"
    using split_at_bar [OF _ _ h2] by simp
  show "or_empty (diffuse m1) = or_empty (diffuse m2)" by (rule d)
  show "or_empty (specular m1) = or_empty (specular m2)" using sn by simp
  show "or_empty (normal m1) = or_empty (normal m2)" using sn by simp
qed

theorem hash_identity_witness:
  "diffuse \<lparr> diffuse = Some ''wood.png'', specular = None, normal = Some ''wood_n.png'' \<rparr>
     = diffuse \<lparr> diffuse = Some ''wood.png'', specular = Some '''', normal = Some ''wood_n.png'' \<rparr>
   \<and> hash \<lparr> diffuse = Some ''wood.png'', specular = None, normal = Some ''wood_n.png'' \<rparr>
     = hash \<lparr> diffuse = Some ''wood.png'', specular = Some '''', normal = Some ''wood_n.png'' \<rparr>
   \<and> CHR ''|'' \<notin> set (or_empty (Some ''wood.png''))
   \<and> or_empty (specular \<lparr> diffuse = Some ''wood.png'', specular = None, normal = Some ''wood_n.png'' \<rparr>)
     = or_empty (specular \<lparr> diffuse = Some ''wood.png'', specular = Some '''', normal = Some ''wood_n.png'' \<rparr>)
   \<and> hash \<lparr> diffuse = Some ''wood.png'', specular = None, normal = None \<rparr>
     = hash \<lparr> diffuse = Some ''wood.png'', specular = None, normal = None \<rparr>
   \<and> hash \<lparr> diffuse = Some ''wood.png'', specular = None, normal = None \<rparr>
     \<noteq> hash \<lparr> diffuse = Some ''oak.png'', specular = None, normal = None \<rparr>"
  using hash_identity [of "\<lparr> diffuse = Some ''wood.png'', specular = None, normal = Some ''wood_n.png'' \<rparr>"
      "\<lparr> diffuse = Some ''wood.png'', specular = Some '''', normal = Some ''wood_n.png'' \<rparr>"]
    hash_identity [of "\<lparr> diffuse = Some ''wood.png'', specular = None, normal = None \<rparr>"
      "\<lparr> diffuse = Some ''wood.png'', specular = None, normal = None \<rparr>"]
    hash_identity [of "\<lparr> diffuse = Some ''wood.png'', specular = None, normal = None \<rparr>"
      "\<lparr> diffuse = Some ''oak.png'', specular = None, normal = None \<rparr>"]
  by (simp add: hash_def or_empty_def)

section \<open>Properties of exportPose\<close>








section \<open>Properties of Source.parse\<close>

lemma and_then_Inr [simp]: "and_then (Inr x) f = f x"
  by (simp add: and_then_def)

lemma and_then_Inl [simp]: "and_then (Inl e) f = Inl e"
  by (simp add: and_then_def)



lemma non_local_message_fields [simp]:
  "non_local_message (source\<lparr>count := c, stride := s, offset := off\<rparr>) = non_local_message source"
  by (simp add: non_local_message_def)




end
